theory Spec2Isabelle
  imports Main "HOL-Library.Word"
begin

section \<open>Bytes, errors and the library calls the source relies on\<close>

text \<open>
  The program is \<^verbatim>\<open>src/stagg_kettle.py\<close>. A Python \<^verbatim>\<open>bytes\<close> object is a list of
  8-bit words. A Python \<^verbatim>\<open>str\<close> is an Isabelle \<open>string\<close> holding its UTF-8 bytes.
  Every exception the modelled code can raise is a value of \<open>error\<close>.
\<close>

type_synonym byte = "8 word"

datatype error = StructError | ValueError | IndexError | UnicodeDecodeError

subsection \<open>\<^verbatim>\<open>bytes.fromhex\<close>\<close>

text \<open>
  \<^verbatim>\<open>bytes.fromhex\<close> skips ASCII whitespace in front of every pair of hex digits and
  raises \<^verbatim>\<open>ValueError\<close> (here \<open>None\<close>) on any other character and on a digit
  without its partner.
\<close>

definition hexval :: "char \<Rightarrow> nat option" where
  "hexval c =
     (let n = (of_char c :: nat) in
      if 48 \<le> n \<and> n \<le> 57 then Some (n - 48)
      else if 97 \<le> n \<and> n \<le> 102 then Some (n - 87)
      else if 65 \<le> n \<and> n \<le> 70 then Some (n - 55)
      else None)"

definition isspace :: "char \<Rightarrow> bool" where
  "isspace c = ((of_char c :: nat) \<in> {9, 10, 11, 12, 13, 32})"

fun fromhex :: "string \<Rightarrow> byte list option" where
  "fromhex [] = Some []"
| "fromhex [c] = (if isspace c then Some [] else None)"
| "fromhex (c # d # cs) =
     (if isspace c then fromhex (d # cs)
      else (case (hexval c, hexval d) of
              (Some h, Some l) \<Rightarrow> map_option ((#) (of_nat (16 * h + l))) (fromhex cs)
            | _ \<Rightarrow> None))"

subsection \<open>\<^verbatim>\<open>struct.pack\<close> and \<^verbatim>\<open>struct.unpack\<close>\<close>

text \<open>
  The source uses the format codes \<^verbatim>\<open>B\<close> (one unsigned byte) and \<^verbatim>\<open>x\<close> (one pad
  byte) only, so a format's size is its length. \<^verbatim>\<open>struct.unpack\<close> raises
  \<^verbatim>\<open>struct.error\<close> unless the buffer has exactly that size, and returns one integer
  for each \<^verbatim>\<open>B\<close>. \<^verbatim>\<open>struct.pack\<close> raises \<^verbatim>\<open>struct.error\<close> when an argument for
  \<^verbatim>\<open>B\<close> is outside 0..255 or the number of arguments is wrong.
\<close>

definition calcsize :: "string \<Rightarrow> nat" where
  "calcsize fmt = length fmt"

fun unpack_items :: "string \<Rightarrow> byte list \<Rightarrow> int list" where
  "unpack_items (c # fmt) (b # data) =
     (if c = CHR ''B'' then uint b # unpack_items fmt data else unpack_items fmt data)"
| "unpack_items _ _ = []"

definition struct_unpack :: "string \<Rightarrow> byte list \<Rightarrow> error + int list" where
  "struct_unpack fmt data =
     (if length data \<noteq> calcsize fmt then Inl StructError else Inr (unpack_items fmt data))"

fun struct_pack :: "string \<Rightarrow> int list \<Rightarrow> error + byte list" where
  "struct_pack [] [] = Inr []"
| "struct_pack (c # fmt) (v # vs) =
     (if c = CHR ''B'' \<and> 0 \<le> v \<and> v \<le> 255
      then (case struct_pack fmt vs of Inl e \<Rightarrow> Inl e | Inr bs \<Rightarrow> Inr (word_of_int v # bs))
      else Inl StructError)"
| "struct_pack _ _ = Inl StructError"

subsection \<open>\<^verbatim>\<open>bytes.decode("utf-8")\<close>\<close>

text \<open>
  Strict UTF-8 decoding raises \<^verbatim>\<open>UnicodeDecodeError\<close> unless the bytes are well
  formed: no stray continuation byte, no overlong form, no surrogate, nothing above
  U+10FFFF. A decoded \<^verbatim>\<open>str\<close> is kept as its UTF-8 bytes, so decoding returns its input.
\<close>

definition cont :: "nat \<Rightarrow> bool" where
  "cont b = (128 \<le> b \<and> b \<le> 191)"

fun utf8_ok :: "nat list \<Rightarrow> bool" where
  "utf8_ok [] = True"
| "utf8_ok (a # bs) =
     (if a < 128 then utf8_ok bs
      else if 194 \<le> a \<and> a \<le> 223 then
        (case bs of b # r \<Rightarrow> cont b \<and> utf8_ok r | _ \<Rightarrow> False)
      else if 224 \<le> a \<and> a \<le> 239 then
        (case bs of
           b # c # r \<Rightarrow>
             (if a = 224 then 160 \<le> b \<and> b \<le> 191
              else if a = 237 then 128 \<le> b \<and> b \<le> 159
              else cont b) \<and> cont c \<and> utf8_ok r
         | _ \<Rightarrow> False)
      else if 240 \<le> a \<and> a \<le> 244 then
        (case bs of
           b # c # e # r \<Rightarrow>
             (if a = 240 then 144 \<le> b \<and> b \<le> 191
              else if a = 244 then 128 \<le> b \<and> b \<le> 143
              else cont b) \<and> cont c \<and> cont e \<and> utf8_ok r
         | _ \<Rightarrow> False)
      else False)"

definition decode_utf8 :: "string \<Rightarrow> error + string" where
  "decode_utf8 raw = (if utf8_ok (map of_char raw) then Inr raw else Inl UnicodeDecodeError)"

section \<open>Module constants\<close>

definition INIT_SEQ :: "byte list" where
  "INIT_SEQ = the (fromhex ''efdd0b3031323334353637383930313233349a6d'')"

definition POWER_ON_SEQ :: "byte list" where
  "POWER_ON_SEQ = the (fromhex ''efdd0a0000010100'')"

definition POWER_OFF_SEQ :: "byte list" where
  "POWER_OFF_SEQ = the (fromhex ''efdd0a0000000000'')"

definition TARGET_TEMP_HDR :: "byte list" where
  "TARGET_TEMP_HDR = the (fromhex ''efdd0a'')"

section \<open>The kettle object and its commands\<close>

text \<open>
  What \<^verbatim>\<open>client.publish\<close> is given: a string, or an integer that the MQTT client
  renders itself.
\<close>

datatype pyval = PyInt int | PyStr string

type_synonym mqtt_log = "(string \<times> pyval) list"

text \<open>
  \<open>characteristics\<close> is the list of frames given to \<^verbatim>\<open>self.characteristics.write\<close>,
  oldest first; \<open>sk_client\<close> the list of \<^verbatim>\<open>client.publish\<close> calls of the kettle
  object. Calls into the Bluetooth and MQTT libraries are taken to succeed.
\<close>

record StaggKettle =
  connected :: bool
  current_state :: string
  characteristics :: "byte list list"
  sk_client :: mqtt_log

definition connect :: "StaggKettle \<Rightarrow> StaggKettle" where
  "connect k =
     (if connected k then k
      else k\<lparr>characteristics := characteristics k @ [INIT_SEQ], connected := True\<rparr>)"

definition power_on :: "StaggKettle \<Rightarrow> StaggKettle" where
  "power_on k =
     (let k = (if \<not> connected k then connect k else k)
      in k\<lparr>characteristics := characteristics k @ [POWER_ON_SEQ], current_state := ''on''\<rparr>)"

definition power_off :: "StaggKettle \<Rightarrow> StaggKettle" where
  "power_off k =
     (let k = (if \<not> connected k then connect k else k)
      in k\<lparr>characteristics := characteristics k @ [POWER_OFF_SEQ], current_state := ''off''\<rparr>)"

text \<open>
  \<^verbatim>\<open>set_temperature\<close> may raise after \<^verbatim>\<open>connect\<close> has run, so it returns the object as
  it is left together with the exception, if any. In the third argument of
  \<^verbatim>\<open>struct.pack\<close> the operator \<^verbatim>\<open>%\<close> binds tighter than \<^verbatim>\<open>+\<close>.
\<close>

definition set_temperature :: "StaggKettle \<Rightarrow> int \<Rightarrow> StaggKettle \<times> error option" where
  "set_temperature k desired_temp =
     (let k = (if \<not> connected k then connect k else k);
          seq_num = (0 :: int)
      in case struct_pack ''BBBB'' [seq_num, desired_temp, seq_num + desired_temp mod 256, 1] of
           Inl e \<Rightarrow> (k, Some e)
         | Inr target_temp_body \<Rightarrow>
             (k\<lparr>characteristics := characteristics k @ [TARGET_TEMP_HDR @ target_temp_body]\<rparr>,
              None))"

text \<open>
  \<^verbatim>\<open>on_message\<close> gets the raw payload of the MQTT message. The decoding is its first
  statement, so when it raises nothing has changed.
\<close>

definition on_message :: "StaggKettle \<Rightarrow> string \<Rightarrow> error + StaggKettle" where
  "on_message k raw =
     (case decode_utf8 raw of
        Inl e \<Rightarrow> Inl e
      | Inr payload \<Rightarrow>
          (let k = (if payload = ''on'' then power_on k
                    else if payload = ''off'' then power_off k
                    else k)
           in Inr (k\<lparr>sk_client :=
                       sk_client k @ [(''homeassistant/switch/kettle/state'', PyStr payload)]\<rparr>)))"

section \<open>The notification delegate\<close>

datatype MessageTypes =
  POWER | HOLD | TARGET_TEMP | CURRENT_TEMP | COUNTDOWN | UNK_1 | HOLDING | UNK_2 | KETTLE_LIFTED

fun MessageTypes_value :: "MessageTypes \<Rightarrow> int" where
  "MessageTypes_value POWER = 0"
| "MessageTypes_value HOLD = 1"
| "MessageTypes_value TARGET_TEMP = 2"
| "MessageTypes_value CURRENT_TEMP = 3"
| "MessageTypes_value COUNTDOWN = 4"
| "MessageTypes_value UNK_1 = 5"
| "MessageTypes_value HOLDING = 6"
| "MessageTypes_value UNK_2 = 7"
| "MessageTypes_value KETTLE_LIFTED = 8"

text \<open>
  The fields of \<^verbatim>\<open>MyDelegate\<close>; Python's \<^verbatim>\<open>None\<close> is \<open>None\<close>. The source's
  \<^verbatim>\<open>_power\<close>, \<^verbatim>\<open>_target_temp\<close>, ... are \<open>priv_power\<close>, \<open>priv_target_temp\<close>, ...
  here. \<open>client\<close> is the list of \<^verbatim>\<open>self.client.publish\<close> calls, oldest first.
  Output to the terminal is left out.
\<close>

record MyDelegate =
  client :: mqtt_log
  priv_power :: "string option"
  priv_target_temp :: "int option"
  priv_current_temp :: "pyval option"
  priv_target_temp_scale :: "string option"
  priv_current_temp_scale :: "string option"
  last_message_type :: "int option"
  changed :: bool

definition init_delegate :: MyDelegate where
  "init_delegate =
     \<lparr>client = [], priv_power = None, priv_target_temp = None, priv_current_temp = None,
      priv_target_temp_scale = None, priv_current_temp_scale = None,
      last_message_type = None, changed = False\<rparr>"

definition publish :: "string \<Rightarrow> pyval \<Rightarrow> MyDelegate \<Rightarrow> MyDelegate" where
  "publish topic v d = d\<lparr>client := client d @ [(topic, v)]\<rparr>"

definition on_change :: "MyDelegate \<Rightarrow> MyDelegate" where
  "on_change d = d\<lparr>changed := True\<rparr>"

text \<open>The degree sign U+00B0 is the two bytes C2 B0 in UTF-8.\<close>

definition deg_F :: string where
  "deg_F = [CHR 0xC2, CHR 0xB0, CHR ''F'']"

definition deg_C :: string where
  "deg_C = [CHR 0xC2, CHR 0xB0, CHR ''C'']"

subsection \<open>The property setters\<close>

definition set_power :: "string \<Rightarrow> MyDelegate \<Rightarrow> MyDelegate" where
  "set_power v d =
     (let d = (if priv_power d \<noteq> Some v
               then on_change (publish ''homeassistant/switch/kettle/state'' (PyStr v) d)
               else d)
      in d\<lparr>priv_power := Some v\<rparr>)"

definition set_target_temp :: "int \<Rightarrow> MyDelegate \<Rightarrow> MyDelegate" where
  "set_target_temp v d =
     (let d = (if priv_target_temp d \<noteq> Some v
               then on_change (publish ''kitchen/kettle/temperature/target'' (PyInt v) d)
               else d)
      in d\<lparr>priv_target_temp := Some v\<rparr>)"

definition set_current_temp :: "int \<Rightarrow> MyDelegate \<Rightarrow> MyDelegate" where
  "set_current_temp v d =
     (let v = (if v < 40 then PyStr ''--'' else PyInt v);
          d = (if priv_current_temp d \<noteq> Some v
               then on_change (publish ''homeassistant/sensor/kettle/temperature'' v d)
               else d)
      in d\<lparr>priv_current_temp := Some v\<rparr>)"

definition set_target_temp_scale :: "int \<Rightarrow> MyDelegate \<Rightarrow> MyDelegate" where
  "set_target_temp_scale v d =
     (let scale = (if v = 1 then deg_F else deg_C);
          d = (if priv_target_temp_scale d \<noteq> Some scale
               then on_change (publish ''kitchen/kettle/temperature/target/scale'' (PyStr scale) d)
               else d)
      in d\<lparr>priv_target_temp_scale := Some scale\<rparr>)"

definition set_current_temp_scale :: "int \<Rightarrow> MyDelegate \<Rightarrow> MyDelegate" where
  "set_current_temp_scale v d =
     (let scale = (if v = 1 then deg_F else deg_C);
          d = (if priv_current_temp_scale d \<noteq> Some scale
               then on_change (publish ''kitchen/kettle/temperature/scale'' (PyStr scale) d)
               else d)
      in d\<lparr>priv_current_temp_scale := Some scale\<rparr>)"

subsection \<open>\<^verbatim>\<open>handleNotification\<close>\<close>

definition startswith :: "byte list \<Rightarrow> byte list \<Rightarrow> bool" where
  "startswith data pre = (take (length pre) data = pre)"

text \<open>
  The branch taken while a message type is pending, up to the reset of
  \<^verbatim>\<open>last_message_type\<close>. In each branch \<^verbatim>\<open>struct.unpack\<close> comes first, so when it
  raises the delegate is as it was: \<open>Inl\<close> carries no state. A tuple assignment
  stores its targets from left to right.
\<close>

definition handle_pending :: "int \<Rightarrow> MyDelegate \<Rightarrow> byte list \<Rightarrow> error + MyDelegate" where
  "handle_pending t d data =
     (if t = MessageTypes_value POWER then
        (case struct_unpack ''Bxx'' data of
           Inl e \<Rightarrow> Inl e
         | Inr [] \<Rightarrow> Inl IndexError
         | Inr (power_value # _) \<Rightarrow>
             if power_value = 0 then Inr (set_power ''off'' d)
             else if power_value = 1 then Inr (set_power ''on'' d)
             else Inr d)
      else if t = MessageTypes_value TARGET_TEMP then
        (case struct_unpack ''BBxx'' data of
           Inl e \<Rightarrow> Inl e
         | Inr [temp, scale] \<Rightarrow> Inr (set_target_temp_scale scale (set_target_temp temp d))
         | Inr _ \<Rightarrow> Inl ValueError)
      else if t = MessageTypes_value CURRENT_TEMP then
        (case struct_unpack ''BBxx'' data of
           Inl e \<Rightarrow> Inl e
         | Inr [temp, scale] \<Rightarrow> Inr (set_current_temp_scale scale (set_current_temp temp d))
         | Inr _ \<Rightarrow> Inl ValueError)
      else Inr d)"

definition handle_header :: "MyDelegate \<Rightarrow> byte list \<Rightarrow> error + MyDelegate" where
  "handle_header d data =
     (if startswith data [0xEF, 0xDD] \<and> length data = 3 then
        (case struct_unpack ''xxB'' data of
           Inl e \<Rightarrow> Inl e
         | Inr [] \<Rightarrow> Inl IndexError
         | Inr (t # _) \<Rightarrow> Inr (d\<lparr>last_message_type := Some t\<rparr>))
      else Inr d)"

definition handleNotification :: "MyDelegate \<Rightarrow> byte list \<Rightarrow> error + MyDelegate" where
  "handleNotification d data =
     (case (case last_message_type d of
              Some t \<Rightarrow>
                (case handle_pending t d data of
                   Inl e \<Rightarrow> Inl e
                 | Inr d \<Rightarrow> Inr (d\<lparr>last_message_type := None\<rparr>))
            | None \<Rightarrow> handle_header d data) of
        Inl e \<Rightarrow> Inl e
      | Inr d \<Rightarrow> Inr (if changed d then d\<lparr>changed := False\<rparr> else d))"

text \<open>
  \<^verbatim>\<open>main_loop\<close> hands the chunks to the delegate one by one and catches nothing: the
  first exception ends the loop.
\<close>

fun feed :: "MyDelegate \<Rightarrow> byte list list \<Rightarrow> error + MyDelegate" where
  "feed d [] = Inr d"
| "feed d (data # rest) =
     (case handleNotification d data of Inl e \<Rightarrow> Inl e | Inr d \<Rightarrow> feed d rest)"

text \<open>A connected kettle object that has written and published nothing yet.\<close>

definition idle_kettle :: StaggKettle where
  "idle_kettle =
     \<lparr>connected = True, current_state = ''off'', characteristics = [], sk_client = []\<rparr>"

section \<open>Facts about the library calls\<close>

lemma length_three: "length xs = 3 \<Longrightarrow> \<exists>a b c. xs = [a, b, c]"
  by (auto simp: numeral_3_eq_3 length_Suc_conv)

lemma length_four: "length xs = 4 \<Longrightarrow> \<exists>a b c e. xs = [a, b, c, e]"
proof -
  assume "length xs = 4"
  then have "length xs = Suc (Suc (Suc (Suc 0)))" by simp
  then show ?thesis by (auto simp: length_Suc_conv)
qed

lemma struct_unpack_Bxx:
  "struct_unpack ''Bxx'' data =
     (if length data = 3 then Inr [uint (data ! 0)] else Inl StructError)"
  by (auto simp: struct_unpack_def calcsize_def dest!: length_three)

lemma struct_unpack_xxB:
  "struct_unpack ''xxB'' data =
     (if length data = 3 then Inr [uint (data ! 2)] else Inl StructError)"
  by (auto simp: struct_unpack_def calcsize_def dest!: length_three)

lemma struct_unpack_BBxx:
  "struct_unpack ''BBxx'' data =
     (if length data = 4 then Inr [uint (data ! 0), uint (data ! 1)] else Inl StructError)"
  by (auto simp: struct_unpack_def calcsize_def dest!: length_four)

lemma struct_pack_BBBB:
  "struct_pack ''BBBB'' [a, b, c, e] =
     (if 0 \<le> a \<and> a \<le> 255 \<and> 0 \<le> b \<and> b \<le> 255 \<and> 0 \<le> c \<and> c \<le> 255 \<and> 0 \<le> e \<and> e \<le> 255
      then Inr [word_of_int a, word_of_int b, word_of_int c, word_of_int e]
      else Inl StructError)"
  by simp

lemma TARGET_TEMP_HDR_bytes: "TARGET_TEMP_HDR = [0xEF, 0xDD, 0x0A]"
  by (simp add: TARGET_TEMP_HDR_def hexval_def isspace_def)

section \<open>The command encoder\<close>

lemma connect_if: "(if \<not> connected k then connect k else k) = connect k"
  by (simp add: connect_def)

lemma set_temperature_unfold:
  "set_temperature k v =
     (if 0 \<le> v \<and> v \<le> 255
      then ((connect k)\<lparr>characteristics := characteristics (connect k) @
              [[0xEF, 0xDD, 0x0A, 0, word_of_int v, word_of_int (0 + v mod 256), 1]]\<rparr>, None)
      else (connect k, Some StructError))"
  unfolding set_temperature_def connect_if Let_def struct_pack_BBBB TARGET_TEMP_HDR_bytes
  by simp

text \<open>
  C1, as the code has it. \<^verbatim>\<open>set_temperature\<close> checks no temperature range, in either
  scale. It fails exactly when the value does not fit an unsigned byte (below 0 or above
  255): \<^verbatim>\<open>struct.pack\<close> then raises \<^verbatim>\<open>struct.error\<close> and no set-temperature frame is
  written. Every value from 0 to 255, the values below 40 and above 100 among them, is
  encoded and written to the characteristic.
\<close>

theorem set_temperature_raises_iff_not_byte:
  "set_temperature k v =
     (if v < 0 \<or> 255 < v then (connect k, Some StructError)
      else ((connect k)\<lparr>characteristics := characteristics (connect k) @
              [[0xEF, 0xDD, 0x0A, 0, word_of_int v, word_of_int v, 1]]\<rparr>, None))"
  by (auto simp: set_temperature_unfold)

theorem set_temperature_raises_iff_not_byte_witness:
  "set_temperature idle_kettle 256 = (idle_kettle, Some StructError) \<and>
   set_temperature idle_kettle (- 1) = (idle_kettle, Some StructError) \<and>
   set_temperature idle_kettle 39 =
     (idle_kettle\<lparr>characteristics := [[0xEF, 0xDD, 0x0A, 0x00, 0x27, 0x27, 0x01]]\<rparr>, None)"
  using set_temperature_raises_iff_not_byte [of idle_kettle 256]
    set_temperature_raises_iff_not_byte [of idle_kettle "- 1"]
    set_temperature_raises_iff_not_byte [of idle_kettle 39]
  by (simp add: idle_kettle_def connect_def)

text \<open>
  C1 as stated fails at 101: nothing is raised, and the frame EF DD 0A 00 65 65 01 is
  written.
\<close>

theorem set_temperature_101_counterexample:
  "set_temperature idle_kettle 101 =
     (idle_kettle\<lparr>characteristics := [[0xEF, 0xDD, 0x0A, 0x00, 0x65, 0x65, 0x01]]\<rparr>, None)"
  by (simp add: set_temperature_unfold idle_kettle_def connect_def)

text \<open>
  C4. For every value that fits a byte, so for every value the device accepts (40 to 100
  in Celsius, 104 to 212 in Fahrenheit), \<^verbatim>\<open>set_temperature\<close> raises nothing and writes
  one frame: the header EF DD 0A, then the body of sequence number 0, the value, the
  checksum (sequence number + value) mod 256, and the flag 1.
\<close>

theorem set_temperature_frame:
  assumes "0 \<le> v" and "v \<le> 255"
  shows "set_temperature k v =
           ((connect k)\<lparr>characteristics := characteristics (connect k) @
              [TARGET_TEMP_HDR @ [0, word_of_int v, word_of_int ((0 + v) mod 256), 1]]\<rparr>, None) \<and>
         TARGET_TEMP_HDR = [0xEF, 0xDD, 0x0A] \<and>
         map uint [0, word_of_int v, word_of_int ((0 + v) mod 256), 1 :: byte] =
           [0, v, (0 + v) mod 256, 1]"
proof -
  have "uint (word_of_int v :: byte) = v"
    using assms by (simp add: uint_word_of_int take_bit_int_eq_self)
  then show ?thesis
    using assms by (simp add: set_temperature_unfold TARGET_TEMP_HDR_bytes)
qed

text \<open>At 100 the frame is EF DD 0A 00 64 64 01.\<close>

theorem set_temperature_frame_witness:
  "set_temperature idle_kettle 100 =
     (idle_kettle\<lparr>characteristics := [[0xEF, 0xDD, 0x0A, 0x00, 0x64, 0x64, 0x01]]\<rparr>, None)"
  using set_temperature_frame [of 100 idle_kettle]
  by (simp add: idle_kettle_def connect_def)

text \<open>
  C8, as the code has it. The three command frames are constants: power-on is
  EF DD 0A 00 00 01 01 00, power-off is EF DD 0A 00 00 00 00 00, and Init is the 20 bytes
  EF DD 0B 30 31 32 33 34 35 36 37 38 39 30 31 32 33 34 9A 6D. \<^verbatim>\<open>power_on\<close> and
  \<^verbatim>\<open>power_off\<close> write their constant after whatever \<^verbatim>\<open>connect\<close> wrote.
\<close>

theorem command_frames_fixed:
  "POWER_ON_SEQ = [0xEF, 0xDD, 0x0A, 0x00, 0x00, 0x01, 0x01, 0x00] \<and>
   POWER_OFF_SEQ = [0xEF, 0xDD, 0x0A, 0x00, 0x00, 0x00, 0x00, 0x00] \<and>
   INIT_SEQ = [0xEF, 0xDD, 0x0B, 0x30, 0x31, 0x32, 0x33, 0x34, 0x35, 0x36, 0x37, 0x38, 0x39,
               0x30, 0x31, 0x32, 0x33, 0x34, 0x9A, 0x6D] \<and>
   characteristics (power_on k) = characteristics (connect k) @ [POWER_ON_SEQ] \<and>
   characteristics (power_off k) = characteristics (connect k) @ [POWER_OFF_SEQ]"
  by (simp add: POWER_ON_SEQ_def POWER_OFF_SEQ_def INIT_SEQ_def hexval_def isspace_def
      power_on_def power_off_def connect_if Let_def)

text \<open>
  C8 as stated fails for Init: the value it gives has 35 hex digits after EF DD 0B, one
  more than the 34 of the source's constant (\<^verbatim>\<open>...3449A6D\<close> for \<^verbatim>\<open>...349a6d\<close>), so it
  is not a whole number of bytes and is not \<open>INIT_SEQ\<close>.
\<close>

theorem init_frame_counterexample:
  "fromhex ''EF DD 0B 30313233343536373839303132333449A6D'' \<noteq> Some INIT_SEQ"
  by (simp add: INIT_SEQ_def hexval_def isspace_def)

section \<open>The MQTT command handler\<close>

text \<open>
  C10, as the code has it. For every message whose payload is well-formed UTF-8, the
  handler publishes the payload as it came to \<^verbatim>\<open>homeassistant/switch/kettle/state\<close>;
  when the payload is neither \<^verbatim>\<open>on\<close> nor \<^verbatim>\<open>off\<close> nothing is written to the device
  and the kettle object is otherwise as before.
\<close>

theorem on_message_echo:
  assumes "decode_utf8 raw = Inr payload"
  shows "\<exists>k'. on_message k raw = Inr k' \<and> payload = raw \<and>
           sk_client k' = sk_client k @ [(''homeassistant/switch/kettle/state'', PyStr raw)] \<and>
           (raw \<noteq> ''on'' \<and> raw \<noteq> ''off'' \<longrightarrow>
              characteristics k' = characteristics k \<and> current_state k' = current_state k \<and>
              connected k' = connected k)"
  using assms
  by (auto simp: on_message_def decode_utf8_def power_on_def power_off_def connect_def Let_def
      split: if_splits)

theorem on_message_echo_witness:
  "on_message idle_kettle ''toggle'' =
     Inr (idle_kettle\<lparr>sk_client := [(''homeassistant/switch/kettle/state'', PyStr ''toggle'')]\<rparr>)"
proof -
  have dec: "decode_utf8 ''toggle'' = Inr ''toggle''"
    by (simp add: decode_utf8_def)
  from on_message_echo [OF dec, of idle_kettle] show ?thesis
    by (auto simp: idle_kettle_def)
qed

text \<open>
  C10 as stated fails for a payload that is not UTF-8, such as the one byte FF: the
  decoding raises \<^verbatim>\<open>UnicodeDecodeError\<close> before anything is published.
\<close>

theorem on_message_undecodable_counterexample:
  "on_message idle_kettle [CHR 0xFF] = Inl UnicodeDecodeError"
  by (simp add: on_message_def decode_utf8_def)

section \<open>The frame decoder\<close>

lemma handle_header_unfold:
  "handle_header d data =
     Inr (if length data = 3 \<and> startswith data [0xEF, 0xDD]
          then d\<lparr>last_message_type := Some (uint (data ! 2))\<rparr> else d)"
  by (auto simp: handle_header_def startswith_def struct_unpack_xxB)

lemma handle_pending_other:
  "t \<noteq> MessageTypes_value POWER \<Longrightarrow> t \<noteq> MessageTypes_value TARGET_TEMP \<Longrightarrow>
   t \<noteq> MessageTypes_value CURRENT_TEMP \<Longrightarrow> handle_pending t d data = Inr d"
  by (simp add: handle_pending_def)

lemma handle_pending_POWER:
  "handle_pending 0 d data =
     (if length data \<noteq> 3 then Inl StructError
      else if uint (data ! 0) = 0 then Inr (set_power ''off'' d)
      else if uint (data ! 0) = 1 then Inr (set_power ''on'' d)
      else Inr d)"
  by (simp add: handle_pending_def struct_unpack_Bxx)

lemma handle_pending_TARGET_TEMP:
  "handle_pending 2 d data =
     (if length data \<noteq> 4 then Inl StructError
      else Inr (set_target_temp_scale (uint (data ! 1)) (set_target_temp (uint (data ! 0)) d)))"
  by (simp add: handle_pending_def struct_unpack_BBxx)

lemma handle_pending_CURRENT_TEMP:
  "handle_pending 3 d data =
     (if length data \<noteq> 4 then Inl StructError
      else Inr (set_current_temp_scale (uint (data ! 1)) (set_current_temp (uint (data ! 0)) d)))"
  by (simp add: handle_pending_def struct_unpack_BBxx)

lemma handleNotification_pending:
  "last_message_type d = Some t \<Longrightarrow>
   handleNotification d data =
     (case handle_pending t d data of
        Inl e \<Rightarrow> Inl e
      | Inr d' \<Rightarrow> Inr (d'\<lparr>last_message_type := None, changed := False\<rparr>))"
  by (auto simp: handleNotification_def split: sum.splits)

lemma handleNotification_header:
  "last_message_type d = None \<Longrightarrow>
   handleNotification d data =
     Inr ((if length data = 3 \<and> startswith data [0xEF, 0xDD]
           then d\<lparr>last_message_type := Some (uint (data ! 2))\<rparr> else d)\<lparr>changed := False\<rparr>)"
  by (simp add: handleNotification_def handle_header_unfold)

lemma header_chunk:
  "last_message_type d = None \<Longrightarrow>
   handleNotification d [0xEF, 0xDD, t] =
     Inr (d\<lparr>last_message_type := Some (uint t), changed := False\<rparr>)"
  by (simp add: handleNotification_header startswith_def)

text \<open>The flag \<open>changed\<close> is down after every call that returns.\<close>

lemma handleNotification_changed:
  "handleNotification d data = Inr d' \<Longrightarrow> changed d' = False"
  by (auto simp: handleNotification_def split: sum.splits option.splits if_splits)

lemma feed_changed:
  "feed d chunks = Inr d' \<Longrightarrow> changed d = False \<Longrightarrow> changed d' = False"
proof (induction chunks arbitrary: d)
  case Nil
  then show ?case by simp
next
  case (Cons data rest)
  then show ?case
    by (auto split: sum.splits dest: handleNotification_changed)
qed

text \<open>
  C2, as the code has it. Take a chunk of a length other than 4 that arrives while a
  message type is pending. When the pending type is none of \<^verbatim>\<open>POWER\<close>,
  \<^verbatim>\<open>TARGET_TEMP\<close> and \<^verbatim>\<open>CURRENT_TEMP\<close>, the chunk is dropped, the pending type is
  cleared and nothing is raised. When the pending type is \<^verbatim>\<open>TARGET_TEMP\<close> or
  \<^verbatim>\<open>CURRENT_TEMP\<close>, or it is \<^verbatim>\<open>POWER\<close> and the chunk is not 3 bytes long,
  \<^verbatim>\<open>struct.unpack\<close> raises \<^verbatim>\<open>struct.error\<close> out of \<^verbatim>\<open>handleNotification\<close>, and the
  delegate, its pending type included, stays as it was.
\<close>

theorem pending_chunk_wrong_length:
  assumes "last_message_type d = Some t" and "length data \<noteq> 4"
  shows "(t \<noteq> MessageTypes_value POWER \<and> t \<noteq> MessageTypes_value TARGET_TEMP \<and>
          t \<noteq> MessageTypes_value CURRENT_TEMP \<longrightarrow>
            handleNotification d data = Inr (d\<lparr>last_message_type := None, changed := False\<rparr>)) \<and>
         (t = MessageTypes_value TARGET_TEMP \<or> t = MessageTypes_value CURRENT_TEMP \<or>
          t = MessageTypes_value POWER \<and> length data \<noteq> 3 \<longrightarrow>
            handleNotification d data = Inl StructError)"
  using assms
  by (auto simp: handleNotification_pending handle_pending_other handle_pending_POWER
      handle_pending_TARGET_TEMP handle_pending_CURRENT_TEMP)

theorem pending_chunk_wrong_length_witness:
  "handleNotification (init_delegate\<lparr>last_message_type := Some 8\<rparr>) [1, 2, 3] = Inr init_delegate \<and>
   handleNotification (init_delegate\<lparr>last_message_type := Some 2\<rparr>) [1, 2, 3] = Inl StructError \<and>
   handleNotification (init_delegate\<lparr>last_message_type := Some 0\<rparr>) [1, 0] = Inl StructError"
  using pending_chunk_wrong_length [of "init_delegate\<lparr>last_message_type := Some 8\<rparr>" 8 "[1, 2, 3]"]
    pending_chunk_wrong_length [of "init_delegate\<lparr>last_message_type := Some 2\<rparr>" 2 "[1, 2, 3]"]
    pending_chunk_wrong_length [of "init_delegate\<lparr>last_message_type := Some 0\<rparr>" 0 "[1, 0]"]
  by (simp add: init_delegate_def)

text \<open>
  C2 as stated fails from the initial state: after the header EF DD 02 the 3-byte chunk
  50 00 00 makes the decoding raise.
\<close>

theorem short_payload_counterexample:
  "feed init_delegate [[0xEF, 0xDD, 0x02], [0x50, 0x00, 0x00]] = Inl StructError"
  by (simp add: handleNotification_header handleNotification_pending handle_pending_TARGET_TEMP
      init_delegate_def startswith_def)

lemma feed_power_on:
  "feed init_delegate [[0xEF, 0xDD, 0x00], [0x01, 0x00, 0x00]] =
     Inr (init_delegate\<lparr>client := [(''homeassistant/switch/kettle/state'', PyStr ''on'')],
                         priv_power := Some ''on''\<rparr>)"
  by (simp add: handleNotification_header handleNotification_pending handle_pending_POWER
      init_delegate_def startswith_def set_power_def publish_def on_change_def)

lemma payload_sizes:
  "(\<exists>d'. handleNotification (d\<lparr>last_message_type := Some t\<rparr>) data = Inr d') =
     (length data = (if t = MessageTypes_value POWER then 3
                     else if t = MessageTypes_value TARGET_TEMP \<or>
                             t = MessageTypes_value CURRENT_TEMP then 4
                     else length data))"
  by (auto simp: handleNotification_pending handle_pending_other handle_pending_POWER
      handle_pending_TARGET_TEMP handle_pending_CURRENT_TEMP)

text \<open>
  C3, as the code has it. From the initial state the header EF DD 00 followed by the
  3-byte payload 01 00 00 sets the power from \<^verbatim>\<open>None\<close> to \<^verbatim>\<open>on\<close> with exactly one
  publish, of \<^verbatim>\<open>on\<close> to the switch state topic. The payload size depends on the
  message type: a chunk that arrives while a type is pending is processed without an
  exception exactly when it has 3 bytes for \<^verbatim>\<open>POWER\<close> (format \<^verbatim>\<open>Bxx\<close>), 4 bytes for
  \<^verbatim>\<open>TARGET_TEMP\<close> and \<^verbatim>\<open>CURRENT_TEMP\<close> (format \<^verbatim>\<open>BBxx\<close>), and any length for every
  other type.
\<close>

theorem power_frame_three_bytes:
  "feed init_delegate [[0xEF, 0xDD, 0x00], [0x01, 0x00, 0x00]] =
     Inr (init_delegate\<lparr>client := [(''homeassistant/switch/kettle/state'', PyStr ''on'')],
                         priv_power := Some ''on''\<rparr>) \<and>
   (\<forall>d t data.
      (\<exists>d'. handleNotification (d\<lparr>last_message_type := Some t\<rparr>) data = Inr d') =
        (length data = (if t = MessageTypes_value POWER then 3
                        else if t = MessageTypes_value TARGET_TEMP \<or>
                                t = MessageTypes_value CURRENT_TEMP then 4
                        else length data)))"
  using feed_power_on payload_sizes by blast

text \<open>
  C3 as stated fails: after the header EF DD 00 the 4-byte payload 01 00 00 00 does not
  fit the format \<^verbatim>\<open>Bxx\<close>, the decoding raises, and the power stays unknown.
\<close>

theorem power_four_byte_payload_counterexample:
  "feed init_delegate [[0xEF, 0xDD, 0x00], [0x01, 0x00, 0x00, 0x00]] = Inl StructError"
  by (simp add: handleNotification_header handleNotification_pending handle_pending_POWER
      init_delegate_def startswith_def)

text \<open>
  C7. \<^verbatim>\<open>last_message_type\<close> is one field, so it holds at most one pending type. In
  every state the delegate reaches from its initial state: while no type is pending, a
  chunk of exactly 3 bytes that starts with EF DD makes its third byte the pending type,
  and every other chunk leaves the delegate as it is; while a type is pending, whatever
  the next chunk is, no type is pending after it.
\<close>

theorem awaiting_header_transition:
  assumes "feed init_delegate chunks = Inr d"
  shows "(last_message_type d = None \<longrightarrow>
            handleNotification d data =
              Inr (if length data = 3 \<and> startswith data [0xEF, 0xDD]
                   then d\<lparr>last_message_type := Some (uint (data ! 2))\<rparr> else d)) \<and>
         (last_message_type d \<noteq> None \<longrightarrow>
            (\<forall>d'. handleNotification d data = Inr d' \<longrightarrow> last_message_type d' = None))"
proof -
  have flag: "changed d = False"
    using assms by (rule feed_changed) (simp add: init_delegate_def)
  then have same: "d\<lparr>changed := False\<rparr> = d"
    by simp
  have hdr: "d\<lparr>last_message_type := Some (uint (data ! 2)), changed := False\<rparr> =
      d\<lparr>last_message_type := Some (uint (data ! 2))\<rparr>"
    using flag by simp
  have idle: "last_message_type d = None \<Longrightarrow>
      handleNotification d data =
        Inr (if length data = 3 \<and> startswith data [0xEF, 0xDD]
             then d\<lparr>last_message_type := Some (uint (data ! 2))\<rparr> else d)"
    using same hdr by (simp add: handleNotification_header)
  have busy: "last_message_type d' = None"
    if "last_message_type d \<noteq> None" and "handleNotification d data = Inr d'" for d'
    using that by (auto simp: handleNotification_pending split: sum.splits)
  from idle busy show ?thesis by blast
qed

theorem awaiting_header_transition_witness:
  "handleNotification init_delegate [0xEF, 0xDD, 0x03] =
     Inr (init_delegate\<lparr>last_message_type := Some 3\<rparr>) \<and>
   handleNotification init_delegate [0xEF, 0xDD, 0x03, 0x00] = Inr init_delegate \<and>
   handleNotification init_delegate [0x00, 0xDD, 0x03] = Inr init_delegate"
proof -
  have start: "feed init_delegate [] = Inr init_delegate"
    by simp
  have idle: "last_message_type init_delegate = None"
    by (simp add: init_delegate_def)
  from awaiting_header_transition [OF start, of "[0xEF, 0xDD, 0x03]"]
    awaiting_header_transition [OF start, of "[0xEF, 0xDD, 0x03, 0x00]"]
    awaiting_header_transition [OF start, of "[0x00, 0xDD, 0x03]"] idle
  show ?thesis
    by (simp add: startswith_def)
qed

section \<open>Interpreting payloads and detecting changes\<close>

text \<open>
  C5. For every 4-byte payload that arrives while \<^verbatim>\<open>CURRENT_TEMP\<close> is pending, the
  call returns and the current temperature is then the string \<^verbatim>\<open>--\<close> (unavailable)
  when the payload's first byte is below 40, and that byte's value otherwise. This
  holds from every state of the delegate.
\<close>

theorem current_temp_below_40_unavailable:
  assumes "last_message_type d = Some (MessageTypes_value CURRENT_TEMP)" and "length data = 4"
  shows "\<exists>d'. handleNotification d data = Inr d' \<and>
           priv_current_temp d' =
             Some (if uint (data ! 0) < 40 then PyStr ''--'' else PyInt (uint (data ! 0)))"
  using assms
  by (simp add: handleNotification_pending handle_pending_CURRENT_TEMP
      set_current_temp_scale_def set_current_temp_def publish_def on_change_def Let_def)

text \<open>The boundary: 39 gives \<^verbatim>\<open>--\<close>, 40 gives 40.\<close>

theorem current_temp_below_40_unavailable_witness:
  "(\<exists>d'. handleNotification (init_delegate\<lparr>last_message_type := Some 3\<rparr>) [39, 0, 0, 0] = Inr d' \<and>
         priv_current_temp d' = Some (PyStr ''--'')) \<and>
   (\<exists>d'. handleNotification (init_delegate\<lparr>last_message_type := Some 3\<rparr>) [40, 0, 0, 0] = Inr d' \<and>
         priv_current_temp d' = Some (PyInt 40))"
  using current_temp_below_40_unavailable
      [of "init_delegate\<lparr>last_message_type := Some 3\<rparr>" "[39, 0, 0, 0]"]
    current_temp_below_40_unavailable
      [of "init_delegate\<lparr>last_message_type := Some 3\<rparr>" "[40, 0, 0, 0]"]
  by simp

text \<open>
  C9. While a message type other than \<^verbatim>\<open>POWER\<close>, \<^verbatim>\<open>TARGET_TEMP\<close> and
  \<^verbatim>\<open>CURRENT_TEMP\<close> is pending, so for \<^verbatim>\<open>HOLD\<close>, \<^verbatim>\<open>COUNTDOWN\<close>, the types 5, 6, 7
  and \<^verbatim>\<open>KETTLE_LIFTED\<close>, every chunk is dropped: the call returns, nothing is
  published, no state field changes, and no type is pending afterwards.
\<close>

theorem undecoded_type_discards_payload:
  assumes "last_message_type d = Some t"
    and "t \<noteq> MessageTypes_value POWER"
    and "t \<noteq> MessageTypes_value TARGET_TEMP"
    and "t \<noteq> MessageTypes_value CURRENT_TEMP"
  shows "handleNotification d data = Inr (d\<lparr>last_message_type := None, changed := False\<rparr>)"
  using assms by (simp add: handleNotification_pending handle_pending_other)

theorem undecoded_type_discards_payload_witness:
  "handleNotification
     (init_delegate\<lparr>last_message_type := Some (MessageTypes_value KETTLE_LIFTED)\<rparr>)
     [0x01, 0x00, 0x00, 0x00] = Inr init_delegate \<and>
   handleNotification
     (init_delegate\<lparr>last_message_type := Some (MessageTypes_value HOLD)\<rparr>)
     [0x09, 0x09] = Inr init_delegate"
  using undecoded_type_discards_payload
      [of "init_delegate\<lparr>last_message_type := Some (MessageTypes_value KETTLE_LIFTED)\<rparr>"
          "MessageTypes_value KETTLE_LIFTED" "[0x01, 0x00, 0x00, 0x00]"]
    undecoded_type_discards_payload
      [of "init_delegate\<lparr>last_message_type := Some (MessageTypes_value HOLD)\<rparr>"
          "MessageTypes_value HOLD" "[0x09, 0x09]"]
  by (simp add: init_delegate_def)

lemma set_power_again:
  "set_power v (set_power v d\<lparr>last_message_type := m, changed := c\<rparr>) =
     set_power v d\<lparr>last_message_type := m, changed := c\<rparr>"
  by (simp add: set_power_def Let_def publish_def on_change_def)

lemma set_target_pair_again:
  "set_target_temp_scale s (set_target_temp v
       (set_target_temp_scale s (set_target_temp v d)\<lparr>last_message_type := m, changed := c\<rparr>)) =
     set_target_temp_scale s (set_target_temp v d)\<lparr>last_message_type := m, changed := c\<rparr>"
  by (simp add: set_target_temp_scale_def set_target_temp_def Let_def publish_def on_change_def)

lemma set_current_pair_again:
  "set_current_temp_scale s (set_current_temp v
       (set_current_temp_scale s (set_current_temp v d)\<lparr>last_message_type := m, changed := c\<rparr>)) =
     set_current_temp_scale s (set_current_temp v d)\<lparr>last_message_type := m, changed := c\<rparr>"
  by (simp add: set_current_temp_scale_def set_current_temp_def Let_def publish_def on_change_def)

lemma handle_pending_again:
  assumes "handle_pending t d data = Inr d'"
  shows "handle_pending t (d'\<lparr>last_message_type := m, changed := c\<rparr>) data =
           Inr (d'\<lparr>last_message_type := m, changed := c\<rparr>)"
proof -
  consider (power) "t = 0" | (target) "t = 2" | (current) "t = 3"
    | (other) "t \<noteq> MessageTypes_value POWER" "t \<noteq> MessageTypes_value TARGET_TEMP"
        "t \<noteq> MessageTypes_value CURRENT_TEMP"
    by auto
  then show ?thesis
  proof cases
    case power
    with assms show ?thesis
      by (auto simp: handle_pending_POWER set_power_again split: if_splits)
  next
    case target
    with assms show ?thesis
      by (auto simp: handle_pending_TARGET_TEMP set_target_pair_again split: if_splits)
  next
    case current
    with assms show ?thesis
      by (auto simp: handle_pending_CURRENT_TEMP set_current_pair_again split: if_splits)
  next
    case other
    then show ?thesis by (simp add: handle_pending_other)
  qed
qed

text \<open>
  C6. Feed a header and its payload to a delegate that has no type pending, and let
  both be processed. Feeding the same header and payload again then returns the very
  same delegate: no field changes and nothing more is published, so every publish of the
  pair belongs to its first application.
\<close>

theorem repeated_payload_idempotent:
  assumes "last_message_type d = None"
    and "feed d [[0xEF, 0xDD, t], data] = Inr d1"
  shows "feed d1 [[0xEF, 0xDD, t], data] = Inr d1"
proof -
  let ?d0 = "d\<lparr>last_message_type := Some (uint t), changed := False\<rparr>"
  from assms have step: "handleNotification ?d0 data = Inr d1"
    by (simp add: header_chunk split: sum.splits)
  then obtain d' where d': "handle_pending (uint t) ?d0 data = Inr d'"
    and d1: "d1 = d'\<lparr>last_message_type := None, changed := False\<rparr>"
    by (auto simp: handleNotification_pending split: sum.splits)
  have idle: "last_message_type d1 = None" by (simp add: d1)
  let ?d2 = "d1\<lparr>last_message_type := Some (uint t), changed := False\<rparr>"
  have d2: "?d2 = d'\<lparr>last_message_type := Some (uint t), changed := False\<rparr>"
    by (simp add: d1)
  have "handle_pending (uint t) ?d2 data = Inr ?d2"
    unfolding d2 using d' by (rule handle_pending_again)
  then have "handleNotification ?d2 data = Inr d1"
    by (simp add: handleNotification_pending d1)
  with idle show ?thesis
    by (simp add: header_chunk)
qed

text \<open>
  With the header EF DD 03 and the payload 20 00 00 00: the first application publishes
  the temperature \<^verbatim>\<open>--\<close> and the scale, the second nothing.
\<close>

theorem repeated_payload_idempotent_witness:
  "feed init_delegate [[0xEF, 0xDD, 0x03], [0x20, 0x00, 0x00, 0x00]] =
     Inr (init_delegate\<lparr>client := [(''homeassistant/sensor/kettle/temperature'', PyStr ''--''),
                                     (''kitchen/kettle/temperature/scale'', PyStr deg_C)],
                         priv_current_temp := Some (PyStr ''--''),
                         priv_current_temp_scale := Some deg_C\<rparr>) \<and>
   feed (init_delegate\<lparr>client := [(''homeassistant/sensor/kettle/temperature'', PyStr ''--''),
                                     (''kitchen/kettle/temperature/scale'', PyStr deg_C)],
                         priv_current_temp := Some (PyStr ''--''),
                         priv_current_temp_scale := Some deg_C\<rparr>)
        [[0xEF, 0xDD, 0x03], [0x20, 0x00, 0x00, 0x00]] =
     Inr (init_delegate\<lparr>client := [(''homeassistant/sensor/kettle/temperature'', PyStr ''--''),
                                     (''kitchen/kettle/temperature/scale'', PyStr deg_C)],
                         priv_current_temp := Some (PyStr ''--''),
                         priv_current_temp_scale := Some deg_C\<rparr>)"
proof -
  have first: "feed init_delegate [[0xEF, 0xDD, 0x03], [0x20, 0x00, 0x00, 0x00]] =
     Inr (init_delegate\<lparr>client := [(''homeassistant/sensor/kettle/temperature'', PyStr ''--''),
                                     (''kitchen/kettle/temperature/scale'', PyStr deg_C)],
                         priv_current_temp := Some (PyStr ''--''),
                         priv_current_temp_scale := Some deg_C\<rparr>)"
    by (simp add: handleNotification_header handleNotification_pending
        handle_pending_CURRENT_TEMP init_delegate_def startswith_def set_current_temp_def
        set_current_temp_scale_def publish_def on_change_def Let_def)
  have idle: "last_message_type init_delegate = None"
    by (simp add: init_delegate_def)
  from repeated_payload_idempotent [OF idle first] first show ?thesis by simp
qed

end
